theory Spec2Isabelle
  imports Complex_Main "HOL-Library.AList"
begin

section \<open>Python values and dictionaries\<close>

text \<open>
  The clients exchange JSON-like Python values. \<open>PFloat\<close> carries a real number: the
  only float literals the code writes are \<open>0.0\<close>, \<open>0.1\<close> and \<open>1.0\<close>, and no
  arithmetic is done on them, so rounding plays no role.
  A \<open>dict\<close> is an association list in insertion order with unique keys.
\<close>

datatype pyval =
    PNone
  | PBool bool
  | PInt int
  | PFloat real
  | PStr string
  | PList "pyval list"
  | PDict "(string \<times> pyval) list"

type_synonym dict = "(string \<times> pyval) list"

text \<open>\<open>d.get(k)\<close> and \<open>d.get(k, default)\<close>.\<close>

definition dict_get :: "dict \<Rightarrow> string \<Rightarrow> pyval" where
  "dict_get d k = (case map_of d k of None \<Rightarrow> PNone | Some v \<Rightarrow> v)"

definition dict_get_default :: "dict \<Rightarrow> string \<Rightarrow> pyval \<Rightarrow> pyval" where
  "dict_get_default d k dflt = (case map_of d k of None \<Rightarrow> dflt | Some v \<Rightarrow> v)"

text \<open>\<open>d[k] = v\<close> and \<open>d.update(other)\<close>: an existing key keeps its position.\<close>

definition dict_set :: "dict \<Rightarrow> string \<Rightarrow> pyval \<Rightarrow> dict" where
  "dict_set d k v = AList.update k v d"

fun dict_update :: "dict \<Rightarrow> dict \<Rightarrow> dict" where
  "dict_update d [] = d"
| "dict_update d ((k, v) # kvs) = dict_update (dict_set d k v) kvs"

text \<open>Python truthiness, as used by \<open>if x:\<close> and \<open>not x\<close>.\<close>

fun truthy :: "pyval \<Rightarrow> bool" where
  "truthy PNone = False"
| "truthy (PBool b) = b"
| "truthy (PInt i) = (i \<noteq> 0)"
| "truthy (PFloat r) = (r \<noteq> 0)"
| "truthy (PStr s) = (s \<noteq> [])"
| "truthy (PList xs) = (xs \<noteq> [])"
| "truthy (PDict kvs) = (kvs \<noteq> [])"

section \<open>Errors\<close>

text \<open>
  Every exception the modelled code can raise. \<open>RequestFailed\<close> stands for the
  transport errors of the HTTP library (a \<open>RequestException\<close> other than
  \<open>HTTPError\<close>); \<open>HTTPError\<close> carries the status code and the body text of the
  response it was raised for; \<open>GenerationFailed d\<close> is the exception with message
  \<open>Flux generation failed: d\<close>; \<open>NoTaskId\<close> the one with message
  \<open>No task ID returned from Flux API\<close>; \<open>TimeoutError t m\<close> says that task \<open>t\<close>
  did not complete within \<open>m\<close> seconds.
\<close>

datatype py_error =
    ValueError string
  | TypeError string
  | RequestFailed string
  | HTTPError int string
  | JSONDecodeError
  | AttributeError string
  | GenerationFailed pyval
  | NoTaskId
  | TimeoutError pyval real

section \<open>HTTP and the world\<close>

datatype form_value = FormStr string | FormJson pyval

text \<open>
  \<open>FormJson v\<close> is the form field whose text is \<open>json.dumps(v)\<close>.
  A multipart file part is (field name, file name, content, content type).
\<close>

datatype http_body =
    NoBody
  | JsonBody dict
  | Multipart "(string \<times> form_value) list" "(string \<times> string \<times> string \<times> string) list"

record http_request =
  http_method :: string
  url :: string
  headers :: "(string \<times> string) list"
  params :: "(string \<times> pyval) list"
  body :: http_body

record http_response =
  status_code :: int
  content :: string
  json_body :: "pyval option"

text \<open>
  \<open>json_body\<close> is what \<open>response.json()\<close> decodes, \<open>None\<close> when the body is not
  JSON. The world records every request sent, in order, and the clock that
  \<open>time.time()\<close> reads, in seconds, as a real number. The environment decides what
  comes back for a request and how long it takes, given how many requests the world
  has seen before it, and by how much a sleep oversleeps. Time passes only inside a
  request or a sleep: two readings of the clock with neither in between are equal.
\<close>

record world =
  sent :: "http_request list"
  now :: real

record env =
  respond :: "nat \<Rightarrow> http_request \<Rightarrow> py_error + http_response"
  latency :: "nat \<Rightarrow> real"
  oversleep :: "nat \<Rightarrow> real"

definition send :: "env \<Rightarrow> http_request \<Rightarrow> world \<Rightarrow> (py_error + http_response) \<times> world" where
  "send e req w =
     (let n = length (sent w)
      in (respond e n req, w\<lparr>sent := sent w @ [req], now := now w + latency e n\<rparr>))"

text \<open>\<open>time.sleep(d)\<close> raises on a negative length, otherwise the clock moves on.\<close>

definition sleep :: "env \<Rightarrow> real \<Rightarrow> world \<Rightarrow> (py_error + unit) \<times> world" where
  "sleep e d w =
     (if d < 0 then (Inl (ValueError ''sleep length must be non-negative''), w)
      else (Inr (), w\<lparr>now := now w + d + oversleep e (length (sent w))\<rparr>))"

text \<open>\<open>response.raise_for_status()\<close> and \<open>response.ok\<close> of the requests library.\<close>

definition raise_for_status :: "http_response \<Rightarrow> py_error + unit" where
  "raise_for_status r =
     (if 400 \<le> status_code r \<and> status_code r < 600
      then Inl (HTTPError (status_code r) (content r)) else Inr ())"

definition ok :: "http_response \<Rightarrow> bool" where
  "ok r = (case raise_for_status r of Inl _ \<Rightarrow> False | Inr _ \<Rightarrow> True)"

definition response_json :: "http_response \<Rightarrow> py_error + pyval" where
  "response_json r = (case json_body r of None \<Rightarrow> Inl JSONDecodeError | Some v \<Rightarrow> Inr v)"

section \<open>FluxClient\<close>

record flux_client =
  api_key :: string
  base_url :: string

definition flux_headers :: "flux_client \<Rightarrow> (string \<times> string) list" where
  "flux_headers self =
     [(''Authorization'', ''Bearer '' @ api_key self),
      (''Content-Type'', ''application/json'')]"

definition model_endpoints :: "(string \<times> string) list" where
  "model_endpoints =
     [(''flux-pro'', ''flux-pro''),
      (''flux-pro-ultra'', ''flux-pro-ultra''),
      (''flux-kontext'', ''flux-kontext'')]"

subsection \<open>Payload construction of \<open>generate_image\<close>\<close>

definition model_fields :: "string \<Rightarrow> dict \<Rightarrow> dict" where
  "model_fields model kwargs =
     (if model = ''flux-pro'' then
        [(''width'', dict_get_default kwargs ''width'' (PInt 1024)),
         (''height'', dict_get_default kwargs ''height'' (PInt 1024)),
         (''prompt_upsampling'', dict_get_default kwargs ''prompt_upsampling'' (PBool False)),
         (''seed'', dict_get kwargs ''seed''),
         (''safety_tolerance'', dict_get_default kwargs ''safety_tolerance'' (PInt 2)),
         (''output_format'', dict_get_default kwargs ''output_format'' (PStr ''jpeg''))]
      else if model = ''flux-pro-ultra'' then
        [(''aspect_ratio'', dict_get_default kwargs ''aspect_ratio'' (PStr ''16:9'')),
         (''prompt_upsampling'', dict_get_default kwargs ''prompt_upsampling'' (PBool False)),
         (''seed'', dict_get kwargs ''seed''),
         (''safety_tolerance'', dict_get_default kwargs ''safety_tolerance'' (PInt 2)),
         (''output_format'', dict_get_default kwargs ''output_format'' (PStr ''jpeg'')),
         (''raw'', dict_get_default kwargs ''raw'' (PBool False)),
         (''image_prompt'', dict_get kwargs ''image_prompt''),
         (''image_prompt_strength'', dict_get_default kwargs ''image_prompt_strength'' (PFloat (1 / 10)))]
      else if model = ''flux-kontext'' then
        [(''width'', dict_get_default kwargs ''width'' (PInt 1024)),
         (''height'', dict_get_default kwargs ''height'' (PInt 1024)),
         (''prompt_upsampling'', dict_get_default kwargs ''prompt_upsampling'' (PBool False)),
         (''seed'', dict_get kwargs ''seed''),
         (''safety_tolerance'', dict_get_default kwargs ''safety_tolerance'' (PInt 2)),
         (''output_format'', dict_get_default kwargs ''output_format'' (PStr ''jpeg'')),
         (''image_prompt'', dict_get kwargs ''image_prompt''),
         (''image_prompt_strength'', dict_get_default kwargs ''image_prompt_strength'' (PFloat (1 / 10)))]
      else [])"

definition add_webhook :: "dict \<Rightarrow> string \<Rightarrow> dict \<Rightarrow> dict" where
  "add_webhook kwargs k payload =
     (if truthy (dict_get kwargs k) then dict_set payload k (dict_get kwargs k) else payload)"

definition remove_none :: "dict \<Rightarrow> dict" where
  "remove_none payload = filter (\<lambda>(k, v). v \<noteq> PNone) payload"

text \<open>
  The payload \<open>generate_image\<close> posts: the unsupported model is refused first, then the
  prompt, the fields of the model, the two webhook parameters, and the removal of every
  \<open>None\<close>.
\<close>

definition build_payload :: "string \<Rightarrow> string \<Rightarrow> dict \<Rightarrow> py_error + dict" where
  "build_payload prompt model kwargs =
     (if map_of model_endpoints model = None
      then Inl (ValueError (''Unsupported model: '' @ model))
      else Inr (remove_none
             (add_webhook kwargs ''webhook_secret''
               (add_webhook kwargs ''webhook_url''
                 (dict_update [(''prompt'', PStr prompt)] (model_fields model kwargs))))))"

subsection \<open>\<open>generate_image\<close>, \<open>get_task_status\<close>\<close>

text \<open>
  \<open>generate_image\<close> logs and re-raises every exception, so each one is the result.
  The log line after the request calls \<open>result.get\<close>, which only a dict has.
\<close>

definition generation_request :: "flux_client \<Rightarrow> string \<Rightarrow> dict \<Rightarrow> http_request" where
  "generation_request self ep payload =
     \<lparr>http_method = ''POST'', url = base_url self @ ''/v1/'' @ ep,
      headers = flux_headers self, params = [], body = JsonBody payload\<rparr>"

definition generate_image ::
  "env \<Rightarrow> flux_client \<Rightarrow> string \<Rightarrow> string \<Rightarrow> dict \<Rightarrow> world \<Rightarrow> (py_error + dict) \<times> world" where
  "generate_image e self prompt model kwargs w =
     (case map_of model_endpoints model of
        None \<Rightarrow> (Inl (ValueError (''Unsupported model: '' @ model)), w)
      | Some ep \<Rightarrow>
         (case build_payload prompt model kwargs of
            Inl err \<Rightarrow> (Inl err, w)
          | Inr payload \<Rightarrow>
             (case send e (generation_request self ep payload) w of
                (Inl err, w1) \<Rightarrow> (Inl err, w1)
              | (Inr response, w1) \<Rightarrow>
                 (case raise_for_status response of
                    Inl err \<Rightarrow> (Inl err, w1)
                  | Inr _ \<Rightarrow>
                     (case response_json response of
                        Inl err \<Rightarrow> (Inl err, w1)
                      | Inr (PDict result) \<Rightarrow> (Inr result, w1)
                      | Inr _ \<Rightarrow> (Inl (AttributeError ''get''), w1))))))"

definition status_request :: "flux_client \<Rightarrow> pyval \<Rightarrow> http_request" where
  "status_request self task_id =
     \<lparr>http_method = ''GET'', url = base_url self @ ''/v1/get_result'',
      headers = flux_headers self, params = [(''id'', task_id)], body = NoBody\<rparr>"

text \<open>
  What \<open>get_task_status\<close> makes of the reply to its request: the transport error, the
  error of \<open>raise_for_status\<close>, or the decoded body.
\<close>

definition status_result :: "py_error + http_response \<Rightarrow> py_error + pyval" where
  "status_result reply =
     (case reply of
        Inl err \<Rightarrow> Inl err
      | Inr response \<Rightarrow>
         (case raise_for_status response of
            Inl err \<Rightarrow> Inl err
          | Inr _ \<Rightarrow> response_json response))"

definition get_task_status ::
  "env \<Rightarrow> flux_client \<Rightarrow> pyval \<Rightarrow> world \<Rightarrow> (py_error + pyval) \<times> world" where
  "get_task_status e self task_id w =
     (case send e (status_request self task_id) w of
        (reply, w1) \<Rightarrow> (status_result reply, w1))"

subsection \<open>\<open>wait_for_completion\<close>\<close>

text \<open>
  The body of the \<open>while\<close> loop after the status came back: return it when it is
  \<open>Ready\<close>, raise on \<open>Error\<close>, otherwise sleep. \<open>None\<close> means: go round again.
\<close>

definition on_status ::
  "env \<Rightarrow> real \<Rightarrow> pyval \<Rightarrow> world \<Rightarrow> ((py_error + dict) option) \<times> world" where
  "on_status e poll_interval status w =
     (case status of
        PDict d \<Rightarrow>
          (if dict_get d ''status'' = PStr ''Ready'' then (Some (Inr d), w)
           else if dict_get d ''status'' = PStr ''Error''
           then (Some (Inl (GenerationFailed
                   (dict_get_default d ''error'' (PStr ''Unknown error'')))), w)
           else (case sleep e poll_interval w of
                   (Inl err, w1) \<Rightarrow> (Some (Inl err), w1)
                 | (Inr _, w1) \<Rightarrow> (None, w1)))
      | _ \<Rightarrow> (Some (Inl (AttributeError ''get'')), w))"

text \<open>
  The loop itself. \<open>max_wait_time\<close> and \<open>poll_interval\<close> are Python numbers, here
  reals. The loop need not end (a zero poll interval on a world where nothing takes
  time), so it is a partial function: \<open>None\<close> is the run that never returns.
\<close>

partial_function (option) wait_loop ::
  "env \<Rightarrow> flux_client \<Rightarrow> pyval \<Rightarrow> real \<Rightarrow> real \<Rightarrow> real \<Rightarrow> world
     \<Rightarrow> ((py_error + dict) \<times> world) option" where
  "wait_loop e self task_id max_wait_time poll_interval start_time w =
     (if now w - start_time < max_wait_time then
        (case get_task_status e self task_id w of
           (Inl err, w1) \<Rightarrow> Some (Inl err, w1)
         | (Inr status, w1) \<Rightarrow>
            (case on_status e poll_interval status w1 of
               (Some r, w2) \<Rightarrow> Some (r, w2)
             | (None, w2) \<Rightarrow>
                 wait_loop e self task_id max_wait_time poll_interval start_time w2))
      else Some (Inl (TimeoutError task_id max_wait_time), w))"

declare wait_loop.simps [code]

definition wait_for_completion ::
  "env \<Rightarrow> flux_client \<Rightarrow> pyval \<Rightarrow> real \<Rightarrow> real \<Rightarrow> world
     \<Rightarrow> ((py_error + dict) \<times> world) option" where
  "wait_for_completion e self task_id max_wait_time poll_interval w =
     wait_loop e self task_id max_wait_time poll_interval (now w) w"

subsection \<open>\<open>generate_and_wait\<close>, \<open>download_image\<close>\<close>

text \<open>
  \<open>kwargs.get("max_wait_time", 300)\<close> is compared with a float by the loop: a number
  compares, anything else raises \<open>TypeError\<close> at the first test, before any query.
\<close>

fun as_number :: "pyval \<Rightarrow> real option" where
  "as_number (PInt i) = Some (of_int i)"
| "as_number (PFloat r) = Some r"
| "as_number (PBool b) = Some (if b then 1 else 0)"
| "as_number _ = None"

definition generate_and_wait ::
  "env \<Rightarrow> flux_client \<Rightarrow> string \<Rightarrow> string \<Rightarrow> dict \<Rightarrow> world
     \<Rightarrow> ((py_error + dict) \<times> world) option" where
  "generate_and_wait e self prompt model kwargs w =
     (case generate_image e self prompt model kwargs w of
        (Inl err, w1) \<Rightarrow> Some (Inl err, w1)
      | (Inr result, w1) \<Rightarrow>
         (let task_id = dict_get result ''id'' in
          if \<not> truthy task_id then Some (Inl NoTaskId, w1)
          else (case as_number (dict_get_default kwargs ''max_wait_time'' (PInt 300)) of
                  None \<Rightarrow> Some (Inl (TypeError ''<''), w1)
                | Some max_wait_time \<Rightarrow>
                    wait_for_completion e self task_id max_wait_time 5 w1)))"

definition download_request :: "string \<Rightarrow> http_request" where
  "download_request image_url =
     \<lparr>http_method = ''GET'', url = image_url, headers = [], params = [], body = NoBody\<rparr>"

definition download_image ::
  "env \<Rightarrow> flux_client \<Rightarrow> string \<Rightarrow> world \<Rightarrow> (py_error + string) \<times> world" where
  "download_image e self image_url w =
     (case send e (download_request image_url) w of
        (Inl err, w1) \<Rightarrow> (Inl err, w1)
      | (Inr response, w1) \<Rightarrow>
         (case raise_for_status response of
            Inl err \<Rightarrow> (Inl err, w1)
          | Inr _ \<Rightarrow> (Inr (content response), w1)))"

section \<open>Sora\<close>

record sora =
  resource_name :: string
  deployment_name :: string
  sora_api_key :: string
  api_version :: string

definition sora_base_url :: "sora \<Rightarrow> string" where
  "sora_base_url self = ''https://'' @ resource_name self @ ''.openai.azure.com/openai/v1/video''"

definition sora_headers :: "sora \<Rightarrow> (string \<times> string) list" where
  "sora_headers self =
     [(''api-key'', sora_api_key self), (''Content-Type'', ''application/json'')]"

text \<open>\<open>str.lower\<close> on the ASCII letters of a header name, and \<open>str\<close> of an integer.\<close>

definition lower_char :: "char \<Rightarrow> char" where
  "lower_char c =
     (let n = (of_char c :: nat) in if 65 \<le> n \<and> n \<le> 90 then char_of (n + 32) else c)"

definition lower :: "string \<Rightarrow> string" where
  "lower s = map lower_char s"

fun str_nat :: "nat \<Rightarrow> string" where
  "str_nat n =
     (if n < 10 then [char_of (48 + n)] else str_nat (n div 10) @ [char_of (48 + n mod 10)])"

definition str_int :: "int \<Rightarrow> string" where
  "str_int i = (if i < 0 then CHR ''-'' # str_nat (nat (- i)) else str_nat (nat i))"

subsection \<open>\<open>create_video_generation_job_with_images\<close>\<close>

definition build_files ::
  "string list \<Rightarrow> string list \<Rightarrow> (string \<times> string \<times> string \<times> string) list" where
  "build_files images image_filenames =
     map (\<lambda>(image_content, filename). (''files'', filename, image_content, ''image/jpeg''))
       (zip images image_filenames)"

definition multipart_headers :: "sora \<Rightarrow> (string \<times> string) list" where
  "multipart_headers self = filter (\<lambda>(k, v). lower k \<noteq> ''content-type'') (sora_headers self)"

definition base_data ::
  "sora \<Rightarrow> string \<Rightarrow> int \<Rightarrow> int \<Rightarrow> int \<Rightarrow> int \<Rightarrow> (string \<times> form_value) list" where
  "base_data self prompt n_seconds height width n_variants =
     [(''prompt'', FormStr prompt),
      (''height'', FormStr (str_int height)),
      (''width'', FormStr (str_int width)),
      (''n_seconds'', FormStr (str_int n_seconds)),
      (''n_variants'', FormStr (str_int n_variants)),
      (''model'', FormStr (deployment_name self))]"

definition inpaint_item :: "string \<Rightarrow> pyval" where
  "inpaint_item filename =
     PDict [(''frame_index'', PInt 0), (''type'', PStr ''image''),
            (''file_name'', PStr filename)]"

definition full_frame :: pyval where
  "full_frame =
     PDict [(''left_fraction'', PFloat 0), (''top_fraction'', PFloat 0),
            (''right_fraction'', PFloat 1), (''bottom_fraction'', PFloat 1)]"

definition inpaint_item_with_crop :: "string \<Rightarrow> pyval" where
  "inpaint_item_with_crop filename =
     PDict [(''frame_index'', PInt 0), (''type'', PStr ''image''),
            (''file_name'', PStr filename), (''crop_bounds'', full_frame)]"

definition data_no_crop ::
  "sora \<Rightarrow> string \<Rightarrow> string list \<Rightarrow> int \<Rightarrow> int \<Rightarrow> int \<Rightarrow> int \<Rightarrow> (string \<times> form_value) list" where
  "data_no_crop self prompt image_filenames n_seconds height width n_variants =
     base_data self prompt n_seconds height width n_variants @
       [(''inpaint_items'', FormJson (PList (map inpaint_item image_filenames)))]"

definition data_with_crop ::
  "sora \<Rightarrow> string \<Rightarrow> string list \<Rightarrow> int \<Rightarrow> int \<Rightarrow> int \<Rightarrow> int \<Rightarrow> (string \<times> form_value) list" where
  "data_with_crop self prompt image_filenames n_seconds height width n_variants =
     base_data self prompt n_seconds height width n_variants @
       [(''inpaint_items'', FormJson (PList (map inpaint_item_with_crop image_filenames)))]"

definition jobs_request ::
  "sora \<Rightarrow> (string \<times> form_value) list \<Rightarrow> string list \<Rightarrow> string list \<Rightarrow> http_request" where
  "jobs_request self data images image_filenames =
     \<lparr>http_method = ''POST'',
      url = sora_base_url self @ ''/generations/jobs?api-version='' @ api_version self,
      headers = multipart_headers self, params = [],
      body = Multipart data (build_files images image_filenames)\<rparr>"

definition create_video_generation_job_with_images ::
  "env \<Rightarrow> sora \<Rightarrow> string \<Rightarrow> string list \<Rightarrow> string list \<Rightarrow> int \<Rightarrow> int \<Rightarrow> int \<Rightarrow> int \<Rightarrow> world
     \<Rightarrow> (py_error + pyval) \<times> world" where
  "create_video_generation_job_with_images e self prompt images image_filenames
       n_seconds height width n_variants w =
     (case send e (jobs_request self
              (data_no_crop self prompt image_filenames n_seconds height width n_variants)
              images image_filenames) w of
        (Inl err, w1) \<Rightarrow> (Inl err, w1)
      | (Inr response, w1) \<Rightarrow>
         (if ok response then (response_json response, w1)
          else
            (case send e (jobs_request self
                     (data_with_crop self prompt image_filenames n_seconds height width n_variants)
                     images image_filenames) w1 of
               (Inl err, w2) \<Rightarrow> (Inl err, w2)
             | (Inr response2, w2) \<Rightarrow>
                (if \<not> ok response2 then
                   (case raise_for_status response2 of
                      Inl err \<Rightarrow> (Inl err, w2)
                    | Inr _ \<Rightarrow> (response_json response2, w2))
                 else (response_json response2, w2)))))"

text \<open>The inpaint descriptors a request carries, and whether one has crop bounds.\<close>

definition descriptors :: "http_request \<Rightarrow> pyval list" where
  "descriptors req =
     (case body req of
        Multipart data files \<Rightarrow>
          (case map_of data ''inpaint_items'' of
             Some (FormJson (PList items)) \<Rightarrow> items
           | _ \<Rightarrow> [])
      | _ \<Rightarrow> [])"

definition crop_bounds :: "pyval \<Rightarrow> pyval option" where
  "crop_bounds item = (case item of PDict d \<Rightarrow> map_of d ''crop_bounds'' | _ \<Rightarrow> None)"

section \<open>The pipeline endpoint\<close>
















section \<open>Stub backends\<close>

text \<open>
  A backend that answers the requests of a run from a script, in order and in no time,
  and fails the transport once the script is used up; the reply that carries a JSON
  body with a status code; and the environments in which no request and no sleep
  takes negative time.
\<close>

definition scripted :: "(py_error + http_response) list \<Rightarrow> env" where
  "scripted replies =
     \<lparr>respond = (\<lambda>n req. if n < length replies then replies ! n
                           else Inl (RequestFailed ''no reply scripted'')),
      latency = (\<lambda>n. 0), oversleep = (\<lambda>n. 0)\<rparr>"

definition json_reply :: "int \<Rightarrow> pyval \<Rightarrow> py_error + http_response" where
  "json_reply code v = Inr \<lparr>status_code = code, content = [], json_body = Some v\<rparr>"

definition pending :: "py_error + http_response" where
  "pending = json_reply 200 (PDict [(''status'', PStr ''Pending'')])"

definition ready :: "py_error + http_response" where
  "ready =
     json_reply 200
       (PDict [(''id'', PStr ''task-1''), (''status'', PStr ''Ready''),
               (''result'', PDict [(''sample'', PStr ''https://delivery.example/sample.jpg'')])])"

definition failed_unsafe :: "py_error + http_response" where
  "failed_unsafe =
     json_reply 200 (PDict [(''status'', PStr ''Error''), (''error'', PStr ''unsafe content'')])"

definition bfl :: flux_client where
  "bfl = \<lparr>api_key = ''key'', base_url = ''https://api.bfl.ml''\<rparr>"

definition idle :: world where
  "idle = \<lparr>sent = [], now = 0\<rparr>"

definition not_modified :: "py_error + http_response" where
  "not_modified = Inr \<lparr>status_code = 304, content = ''cached bytes'', json_body = None\<rparr>"

definition rejected :: "py_error + http_response" where
  "rejected =
     Inr \<lparr>status_code = 400, content = ''crop_bounds is required'', json_body = None\<rparr>"

definition accepted :: "string \<Rightarrow> py_error + http_response" where
  "accepted job = json_reply 201 (PDict [(''id'', PStr job), (''status'', PStr ''queued'')])"

definition azure :: sora where
  "azure = \<lparr>resource_name = ''res'', deployment_name = ''sora'', sora_api_key = ''key'',
            api_version = ''preview''\<rparr>"



definition causal :: "env \<Rightarrow> bool" where
  "causal e = (\<forall>n. 0 \<le> latency e n \<and> 0 \<le> oversleep e n)"

section \<open>Properties of the payload construction\<close>

lemma remove_none_no_none: "(k, v) \<in> set (remove_none d) \<Longrightarrow> v \<noteq> PNone"
  by (auto simp: remove_none_def)

lemma map_of_remove_none:
  "distinct (map fst d) \<Longrightarrow>
   map_of (remove_none d) k =
     (case map_of d k of None \<Rightarrow> None | Some v \<Rightarrow> if v = PNone then None else Some v)"
proof (induction d)
  case Nil
  then show ?case by (simp add: remove_none_def)
next
  case (Cons a d)
  obtain k' v' where a: "a = (k', v')" by (cases a)
  from Cons.prems a have notin: "k' \<notin> fst ` set d" and dist: "distinct (map fst d)"
    by auto
  from notin have none: "map_of d k' = None"
    by (simp add: map_of_eq_None_iff)
  from Cons.IH [OF dist] a none show ?case
    by (auto simp: remove_none_def split: option.splits)
qed

lemma map_of_dict_set: "map_of (dict_set d k v) = (map_of d)(k \<mapsto> v)"
  by (simp add: dict_set_def update_conv')

lemma distinct_dict_set: "distinct (map fst d) \<Longrightarrow> distinct (map fst (dict_set d k v))"
  by (simp add: dict_set_def distinct_update)

lemma distinct_dict_update:
  "distinct (map fst d) \<Longrightarrow> distinct (map fst (dict_update d kvs))"
  by (induction d kvs rule: dict_update.induct) (simp_all add: distinct_dict_set)

lemma distinct_add_webhook:
  "distinct (map fst d) \<Longrightarrow> distinct (map fst (add_webhook kwargs k d))"
  by (simp add: add_webhook_def distinct_dict_set)

lemma map_of_add_webhook:
  "map_of (add_webhook kwargs k d) =
     (if truthy (dict_get kwargs k) then (map_of d)(k \<mapsto> dict_get kwargs k) else map_of d)"
  by (simp add: add_webhook_def map_of_dict_set)

lemma recognised_models:
  "map_of model_endpoints model \<noteq> None \<longleftrightarrow>
     model = ''flux-pro'' \<or> model = ''flux-pro-ultra'' \<or> model = ''flux-kontext''"
  by (auto simp: model_endpoints_def)

lemma build_payload_lookup:
  assumes "map_of model_endpoints model \<noteq> None"
  shows "\<exists>payload. build_payload prompt model kwargs = Inr payload \<and>
           (\<forall>k. map_of payload k =
              (case map_of (add_webhook kwargs ''webhook_secret''
                     (add_webhook kwargs ''webhook_url''
                       (dict_update [(''prompt'', PStr prompt)] (model_fields model kwargs)))) k of
                 None \<Rightarrow> None
               | Some v \<Rightarrow> if v = PNone then None else Some v))"
proof -
  have "distinct (map fst (add_webhook kwargs ''webhook_secret''
                     (add_webhook kwargs ''webhook_url''
                       (dict_update [(''prompt'', PStr prompt)] (model_fields model kwargs)))))"
    by (intro distinct_add_webhook distinct_dict_update) simp
  from map_of_remove_none [OF this] assms show ?thesis
    by (simp add: build_payload_def)
qed


lemma model_fields_entry:
  "(k, v) \<in> set (model_fields model kwargs) \<Longrightarrow> \<exists>d. v = dict_get_default kwargs k d"
  unfolding model_fields_def dict_get_def dict_get_default_def
  by (auto split: if_splits)

lemma map_of_dict_update_cases:
  "map_of (dict_update d kvs) k = Some v \<Longrightarrow> (k, v) \<in> set kvs \<or> map_of d k = Some v"
  by (induction d kvs rule: dict_update.induct)
     (auto simp: map_of_dict_set split: if_splits)

lemma passed_none_dropped:
  assumes "build_payload prompt model kwargs = Inr payload"
    and "k \<noteq> ''prompt''" and "map_of kwargs k = Some PNone"
  shows "map_of payload k = None"
proof (rule ccontr)
  assume "map_of payload k \<noteq> None"
  then obtain v where v: "map_of payload k = Some v" by blast
  from assms(1) have rec: "map_of model_endpoints model \<noteq> None"
    by (auto simp: build_payload_def split: if_splits)
  from build_payload_lookup [OF rec, of prompt kwargs] assms(1) v
  have nn: "v \<noteq> PNone"
    and u: "map_of (add_webhook kwargs ''webhook_secret''
                     (add_webhook kwargs ''webhook_url''
                       (dict_update [(''prompt'', PStr prompt)] (model_fields model kwargs)))) k = Some v"
    by (auto split: option.splits if_splits)
  from assms(3) have g: "dict_get kwargs k = PNone" and gd: "\<And>d. dict_get_default kwargs k d = PNone"
    by (simp_all add: dict_get_def dict_get_default_def)
  from u g nn have "map_of (dict_update [(''prompt'', PStr prompt)] (model_fields model kwargs)) k = Some v"
    by (auto simp: map_of_add_webhook split: if_splits)
  from map_of_dict_update_cases [OF this] assms(2)
  have "(k, v) \<in> set (model_fields model kwargs)"
    by (auto split: if_splits)
  from model_fields_entry [OF this] gd nn show False by auto
qed

text \<open>
  Claim C8. For every recognized model and every keyword bag, \<open>generate_image\<close>
  builds a payload, no value in it is \<open>None\<close>, a keyword passed as \<open>None\<close> is not
  in it, and each default of the model stands in for the keyword that was not passed:
  width and height 1024, prompt upsampling off, safety tolerance 2, output format
  jpeg, aspect ratio 16:9 and raw off for the ultra model, image prompt strength 0.1.
\<close>

theorem build_payload_drops_none_applies_defaults:
  assumes "map_of model_endpoints model \<noteq> None"
  shows "\<exists>payload. build_payload prompt model kwargs = Inr payload \<and>
     (\<forall>(k, v) \<in> set payload. v \<noteq> PNone) \<and>
     (\<forall>k. k \<noteq> ''prompt'' \<and> map_of kwargs k = Some PNone \<longrightarrow> map_of payload k = None) \<and>
     (model = ''flux-pro'' \<longrightarrow>
        (\<forall>(k, d) \<in> {(''width'', PInt 1024), (''height'', PInt 1024),
                     (''prompt_upsampling'', PBool False), (''safety_tolerance'', PInt 2),
                     (''output_format'', PStr ''jpeg'')}.
           map_of kwargs k = None \<longrightarrow> map_of payload k = Some d)) \<and>
     (model = ''flux-pro-ultra'' \<longrightarrow>
        (\<forall>(k, d) \<in> {(''aspect_ratio'', PStr ''16:9''), (''prompt_upsampling'', PBool False),
                     (''safety_tolerance'', PInt 2), (''output_format'', PStr ''jpeg''),
                     (''raw'', PBool False), (''image_prompt_strength'', PFloat (1 / 10))}.
           map_of kwargs k = None \<longrightarrow> map_of payload k = Some d)) \<and>
     (model = ''flux-kontext'' \<longrightarrow>
        (\<forall>(k, d) \<in> {(''width'', PInt 1024), (''height'', PInt 1024),
                     (''prompt_upsampling'', PBool False), (''safety_tolerance'', PInt 2),
                     (''output_format'', PStr ''jpeg''),
                     (''image_prompt_strength'', PFloat (1 / 10))}.
           map_of kwargs k = None \<longrightarrow> map_of payload k = Some d))"
proof -
  from build_payload_lookup [OF assms, of prompt kwargs]
  obtain payload where p: "build_payload prompt model kwargs = Inr payload"
    and look: "\<And>k. map_of payload k =
              (case map_of (add_webhook kwargs ''webhook_secret''
                     (add_webhook kwargs ''webhook_url''
                       (dict_update [(''prompt'', PStr prompt)] (model_fields model kwargs)))) k of
                 None \<Rightarrow> None
               | Some v \<Rightarrow> if v = PNone then None else Some v)"
    by blast
  from p assms have "payload = remove_none (add_webhook kwargs ''webhook_secret''
                     (add_webhook kwargs ''webhook_url''
                       (dict_update [(''prompt'', PStr prompt)] (model_fields model kwargs))))"
    by (simp add: build_payload_def)
  then have nonone: "\<forall>(k, v) \<in> set payload. v \<noteq> PNone"
    by (auto dest: remove_none_no_none)
  from assms recognised_models [of model]
  have m: "model = ''flux-pro'' \<or> model = ''flux-pro-ultra'' \<or> model = ''flux-kontext''"
    by blast
  have dropped: "\<forall>k. k \<noteq> ''prompt'' \<and> map_of kwargs k = Some PNone \<longrightarrow> map_of payload k = None"
    using passed_none_dropped [OF p] by blast
  have pro: "model = ''flux-pro'' \<longrightarrow>
        (\<forall>(k, d) \<in> {(''width'', PInt 1024), (''height'', PInt 1024),
                     (''prompt_upsampling'', PBool False), (''safety_tolerance'', PInt 2),
                     (''output_format'', PStr ''jpeg'')}.
           map_of kwargs k = None \<longrightarrow> map_of payload k = Some d)"
    by (simp add: look map_of_add_webhook model_fields_def map_of_dict_set
        dict_get_def dict_get_default_def)
  have ultra: "model = ''flux-pro-ultra'' \<longrightarrow>
        (\<forall>(k, d) \<in> {(''aspect_ratio'', PStr ''16:9''), (''prompt_upsampling'', PBool False),
                     (''safety_tolerance'', PInt 2), (''output_format'', PStr ''jpeg''),
                     (''raw'', PBool False), (''image_prompt_strength'', PFloat (1 / 10))}.
           map_of kwargs k = None \<longrightarrow> map_of payload k = Some d)"
    by (simp add: look map_of_add_webhook model_fields_def map_of_dict_set
        dict_get_def dict_get_default_def)
  have kontext: "model = ''flux-kontext'' \<longrightarrow>
        (\<forall>(k, d) \<in> {(''width'', PInt 1024), (''height'', PInt 1024),
                     (''prompt_upsampling'', PBool False), (''safety_tolerance'', PInt 2),
                     (''output_format'', PStr ''jpeg''),
                     (''image_prompt_strength'', PFloat (1 / 10))}.
           map_of kwargs k = None \<longrightarrow> map_of payload k = Some d)"
    by (simp add: look map_of_add_webhook model_fields_def map_of_dict_set
        dict_get_def dict_get_default_def)
  show ?thesis
    apply (rule exI [of _ payload])
    using p nonone dropped pro ultra kontext
    apply (intro conjI)
         apply assumption+
    done
qed



theorem build_payload_drops_none_applies_defaults_witness:
  "map_of model_endpoints ''flux-pro-ultra'' \<noteq> None \<and>
   (\<exists>payload.
      build_payload ''a cat'' ''flux-pro-ultra'' [(''seed'', PNone), (''raw'', PBool True)] =
        Inr payload \<and>
      (\<forall>(k, v) \<in> set payload. v \<noteq> PNone) \<and>
      map_of payload ''seed'' = None \<and>
      map_of payload ''aspect_ratio'' = Some (PStr ''16:9'') \<and>
      map_of payload ''raw'' = Some (PBool True))"
proof -
  have h: "map_of model_endpoints ''flux-pro-ultra'' \<noteq> None"
    by (simp add: model_endpoints_def)
  have ev: "build_payload ''a cat'' ''flux-pro-ultra'' [(''seed'', PNone), (''raw'', PBool True)] =
     Inr [(''prompt'', PStr ''a cat''), (''aspect_ratio'', PStr ''16:9''),
          (''prompt_upsampling'', PBool False), (''safety_tolerance'', PInt 2),
          (''output_format'', PStr ''jpeg''), (''raw'', PBool True),
          (''image_prompt_strength'', PFloat (1 / 10))]"
    by (simp add: build_payload_def model_endpoints_def model_fields_def add_webhook_def
        remove_none_def dict_get_def dict_get_default_def dict_set_def)
  from build_payload_drops_none_applies_defaults
    [OF h, of "''a cat''" "[(''seed'', PNone), (''raw'', PBool True)]"]
  obtain payload where
    p: "build_payload ''a cat'' ''flux-pro-ultra'' [(''seed'', PNone), (''raw'', PBool True)] =
          Inr payload"
    and nn: "\<forall>(k, v) \<in> set payload. v \<noteq> PNone"
    by blast
  from p ev have "payload = [(''prompt'', PStr ''a cat''), (''aspect_ratio'', PStr ''16:9''),
          (''prompt_upsampling'', PBool False), (''safety_tolerance'', PInt 2),
          (''output_format'', PStr ''jpeg''), (''raw'', PBool True),
          (''image_prompt_strength'', PFloat (1 / 10))]"
    by simp
  then have "map_of payload ''seed'' = None"
    and "map_of payload ''aspect_ratio'' = Some (PStr ''16:9'')"
    and "map_of payload ''raw'' = Some (PBool True)"
    by simp_all
  with h p nn show ?thesis by blast
qed

text \<open>
  Claim C1. The claim asks for a missing-field error when \<open>flux-kontext\<close> gets no
  \<open>image_prompt\<close>. The code builds a payload all the same: the absent reference image
  reads as \<open>None\<close> and is removed with the other \<open>None\<close> values, so the request goes
  out without it.
\<close>

theorem build_payload_kontext_without_image_prompt:
  "build_payload ''make it red'' ''flux-kontext'' [] =
     Inr [(''prompt'', PStr ''make it red''), (''width'', PInt 1024), (''height'', PInt 1024),
          (''prompt_upsampling'', PBool False), (''safety_tolerance'', PInt 2),
          (''output_format'', PStr ''jpeg''), (''image_prompt_strength'', PFloat (1 / 10))]"
  by (simp add: build_payload_def model_endpoints_def model_fields_def add_webhook_def
      remove_none_def dict_get_def dict_get_default_def dict_set_def)

section \<open>Properties of \<open>wait_for_completion\<close>\<close>

lemma get_task_status_eq:
  "get_task_status e self tid w =
     (status_result (respond e (length (sent w)) (status_request self tid)),
      w\<lparr>sent := sent w @ [status_request self tid],
        now := now w + latency e (length (sent w))\<rparr>)"
  by (simp add: get_task_status_def send_def Let_def)

text \<open>One turn of the loop.\<close>

lemma wait_loop_timeout:
  "\<not> now w - start < mw \<Longrightarrow>
   wait_loop e self tid mw poll start w =
     Some (Inl (TimeoutError tid mw), w)"
  by (subst wait_loop.simps) simp


lemma wait_loop_ready:
  assumes "now w - start < mw"
    and "status_result (respond e (length (sent w)) (status_request self tid)) = Inr (PDict d)"
    and "dict_get d ''status'' = PStr ''Ready''"
  shows "wait_loop e self tid mw poll start w = Some (Inr d, snd (get_task_status e self tid w))"
  using assms by (subst wait_loop.simps) (simp add: get_task_status_eq on_status_def)

lemma wait_loop_error:
  assumes "now w - start < mw"
    and "status_result (respond e (length (sent w)) (status_request self tid)) = Inr (PDict d)"
    and "dict_get d ''status'' = PStr ''Error''"
  shows "wait_loop e self tid mw poll start w =
           Some (Inl (GenerationFailed (dict_get_default d ''error'' (PStr ''Unknown error''))),
                 snd (get_task_status e self tid w))"
  using assms by (subst wait_loop.simps) (simp add: get_task_status_eq on_status_def)

lemma wait_loop_pending:
  assumes "now w - start < mw"
    and "status_result (respond e (length (sent w)) (status_request self tid)) = Inr (PDict d)"
    and "dict_get d ''status'' \<noteq> PStr ''Ready''" and "dict_get d ''status'' \<noteq> PStr ''Error''"
    and "0 \<le> poll"
  shows "wait_loop e self tid mw poll start w =
           wait_loop e self tid mw poll start
             (w\<lparr>sent := sent w @ [status_request self tid],
                now := now w + latency e (length (sent w)) + poll
                         + oversleep e (Suc (length (sent w)))\<rparr>)"
  using assms
  by (subst wait_loop.simps) (simp add: get_task_status_eq on_status_def sleep_def)


lemma sent_after_query:
  "sent (snd (get_task_status e self tid w)) = sent w @ [status_request self tid]"
  by (simp add: get_task_status_eq)

lemma now_after_query:
  "now (snd (get_task_status e self tid w)) = now w + latency e (length (sent w))"
  by (simp add: get_task_status_eq)

lemma sent_after_sleep: "sent (snd (sleep e d w)) = sent w"
  by (simp add: sleep_def)

lemma now_after_sleep:
  "0 \<le> d \<Longrightarrow> now (snd (sleep e d w)) = now w + d + oversleep e (length (sent w))"
  by (simp add: sleep_def)

lemma wait_loop_step:
  assumes "now w - start < mw"
  shows "(\<exists>r. wait_loop e self tid mw poll start w =
                Some (r, snd (get_task_status e self tid w))) \<or>
         (0 \<le> poll \<and>
          wait_loop e self tid mw poll start w =
            wait_loop e self tid mw poll start
              (snd (sleep e poll (snd (get_task_status e self tid w)))))"
  using assms
  by (subst (1 2) wait_loop.simps)
     (simp add: get_task_status_eq on_status_def sleep_def
        split: sum.splits pyval.splits prod.splits)


lemma wait_loop_returns_within:
  assumes "causal e" and "0 < poll"
  shows "nat \<lceil>(mw - (now w - start)) / poll\<rceil> \<le> k \<Longrightarrow>
         \<exists>r w' m. wait_loop e self tid mw poll start w = Some (r, w') \<and>
                sent w' = sent w @ replicate m (status_request self tid) \<and> m \<le> k"
proof (induction k arbitrary: w)
  case 0
  then have "\<lceil>(mw - (now w - start)) / poll\<rceil> \<le> 0" by simp
  then have "(mw - (now w - start)) / poll \<le> 0" by (simp add: ceiling_le_zero)
  with \<open>0 < poll\<close> have "mw - (now w - start) \<le> 0"
    by (simp add: divide_le_0_iff)
  then have "\<not> now w - start < mw" by simp
  from wait_loop_timeout [OF this] show ?case by simp
next
  case (Suc k)
  show ?case
  proof (cases "now w - start < mw")
    case False
    from wait_loop_timeout [OF this] show ?thesis by simp
  next
    case True
    let ?w1 = "snd (get_task_status e self tid w)"
    let ?w2 = "snd (sleep e poll ?w1)"
    from wait_loop_step [OF True, of e self tid poll]
    show ?thesis
    proof
      assume "\<exists>r. wait_loop e self tid mw poll start w = Some (r, ?w1)"
      then obtain r where "wait_loop e self tid mw poll start w = Some (r, ?w1)" ..
      moreover have "sent ?w1 = sent w @ replicate 1 (status_request self tid)"
        by (simp add: sent_after_query)
      ultimately show ?thesis by (intro exI [of _ r] exI [of _ ?w1] exI [of _ 1]) simp
    next
      assume cont: "0 \<le> poll \<and>
        wait_loop e self tid mw poll start w = wait_loop e self tid mw poll start ?w2"
      from assms have l: "0 \<le> latency e (length (sent w))"
        and o: "0 \<le> oversleep e (length (sent ?w1))"
        by (simp_all add: causal_def)
      from cont have n2: "now ?w2 = now w + latency e (length (sent w)) + poll
                            + oversleep e (length (sent ?w1))"
        by (simp add: now_after_sleep now_after_query)
      with l o have later: "now w + poll \<le> now ?w2" by simp
      then have "mw - (now ?w2 - start) \<le> (mw - (now w - start)) - poll" by simp
      with \<open>0 < poll\<close> have "(mw - (now ?w2 - start)) / poll \<le> ((mw - (now w - start)) - poll) / poll"
        by (simp add: divide_right_mono)
      also from \<open>0 < poll\<close> have "\<dots> = (mw - (now w - start)) / poll - 1"
        by (simp add: diff_divide_distrib)
      finally have "\<lceil>(mw - (now ?w2 - start)) / poll\<rceil> \<le> \<lceil>(mw - (now w - start)) / poll - 1\<rceil>"
        by (rule ceiling_mono)
      also have "\<dots> = \<lceil>(mw - (now w - start)) / poll\<rceil> - 1"
        by (rule ceiling_diff_one)
      finally have c: "\<lceil>(mw - (now ?w2 - start)) / poll\<rceil> \<le> \<lceil>(mw - (now w - start)) / poll\<rceil> - 1" .
      from Suc.prems have "\<lceil>(mw - (now w - start)) / poll\<rceil> \<le> int (Suc k)"
        by (simp only: nat_le_iff)
      with c have "\<lceil>(mw - (now ?w2 - start)) / poll\<rceil> \<le> int k" by linarith
      then have "nat \<lceil>(mw - (now ?w2 - start)) / poll\<rceil> \<le> k"
        by (simp only: nat_le_iff)
      from Suc.IH [OF this] obtain r w' m where
        run: "wait_loop e self tid mw poll start ?w2 = Some (r, w')"
        and s: "sent w' = sent ?w2 @ replicate m (status_request self tid)" and m: "m \<le> k"
        by blast
      from s have "sent w' = sent w @ replicate (Suc m) (status_request self tid)"
        by (simp add: sent_after_sleep sent_after_query replicate_append_same)
      with cont run m show ?thesis
        by (intro exI [of _ r] exI [of _ w'] exI [of _ "Suc m"]) simp
    qed
  qed
qed

text \<open>A reply that reports \<open>Error\<close> ends the run, whatever came before it.\<close>

lemma wait_loop_error_ends:
  assumes "status_result (respond e k (status_request self tid)) = Inr (PDict d)"
    and "dict_get d ''status'' = PStr ''Error''"
  shows "length (sent w) + j = k \<Longrightarrow>
         \<exists>r w'. wait_loop e self tid mw poll start w = Some (r, w') \<and>
                length (sent w') \<le> Suc k \<and>
                (length (sent w') = Suc k \<longrightarrow>
                   r = Inl (GenerationFailed (dict_get_default d ''error'' (PStr ''Unknown error''))))"
proof (induction j arbitrary: w)
  case 0
  show ?case
  proof (cases "now w - start < mw")
    case False
    from wait_loop_timeout [OF this] 0 show ?thesis by simp
  next
    case True
    from 0 assms have "status_result (respond e (length (sent w)) (status_request self tid)) = Inr (PDict d)"
      by simp
    from wait_loop_error [OF True this assms(2)] 0 show ?thesis
      by (simp add: sent_after_query)
  qed
next
  case (Suc j)
  show ?case
  proof (cases "now w - start < mw")
    case False
    from wait_loop_timeout [OF this] Suc.prems show ?thesis by simp
  next
    case True
    let ?w1 = "snd (get_task_status e self tid w)"
    let ?w2 = "snd (sleep e poll ?w1)"
    from wait_loop_step [OF True, of e self tid poll]
    show ?thesis
    proof
      assume "\<exists>r. wait_loop e self tid mw poll start w = Some (r, ?w1)"
      with Suc.prems show ?thesis by (auto simp: sent_after_query)
    next
      assume cont: "0 \<le> poll \<and>
        wait_loop e self tid mw poll start w = wait_loop e self tid mw poll start ?w2"
      from Suc.prems have "length (sent ?w2) + j = k"
        by (simp add: sent_after_sleep sent_after_query)
      from Suc.IH [OF this] cont show ?thesis by simp
    qed
  qed
qed


lemmas stubs = scripted_def json_reply_def pending_def ready_def failed_unsafe_def bfl_def
  idle_def

lemmas flux_simps = wait_for_completion_def get_task_status_def send_def on_status_def
  sleep_def status_result_def raise_for_status_def response_json_def dict_get_def
  dict_get_default_def

text \<open>
  Claim C10. With a maximum wait of zero or less the loop test fails at once:
  \<open>TimeoutError\<close> is raised and the world is unchanged, so no status query was sent.
\<close>

theorem wait_for_completion_nonpositive_max_wait:
  assumes "max_wait_time \<le> 0"
  shows "wait_for_completion e self task_id max_wait_time poll_interval w =
           Some (Inl (TimeoutError task_id max_wait_time), w)"
  using assms by (simp add: wait_for_completion_def wait_loop.simps)

theorem wait_for_completion_nonpositive_max_wait_witness:
  "(0::real) \<le> 0 \<and>
   wait_for_completion (scripted [ready]) bfl (PStr ''task-1'') 0 5 idle =
     Some (Inl (TimeoutError (PStr ''task-1'') 0), idle) \<and>
   sent idle = []"
  using wait_for_completion_nonpositive_max_wait
    [of 0 "scripted [ready]" bfl "PStr ''task-1''" 5 idle]
  by (simp add: idle_def)

text \<open>
  Claim C4. A positive maximum wait below the poll interval, against a backend whose
  first status is neither \<open>Ready\<close> nor \<open>Error\<close>: one status query is sent, the sleep
  outlasts the maximum wait, and the run ends in \<open>TimeoutError\<close>.
\<close>

theorem wait_for_completion_max_wait_below_poll_interval:
  assumes "0 < max_wait_time" and "max_wait_time < poll_interval" and "causal e"
    and "status_result (respond e (length (sent w)) (status_request self task_id)) =
           Inr (PDict d)"
    and "dict_get d ''status'' \<noteq> PStr ''Ready''"
    and "dict_get d ''status'' \<noteq> PStr ''Error''"
  shows "\<exists>w'. wait_for_completion e self task_id max_wait_time poll_interval w =
                 Some (Inl (TimeoutError task_id max_wait_time), w') \<and>
              sent w' = sent w @ [status_request self task_id]"
proof -
  let ?w1 = "w\<lparr>sent := sent w @ [status_request self task_id],
               now := now w + latency e (length (sent w)) + poll_interval
                        + oversleep e (Suc (length (sent w)))\<rparr>"
  from assms(1) have first: "now w - now w < max_wait_time" by simp
  from assms(1,2) have "0 \<le> poll_interval" by simp
  from wait_loop_pending [OF first assms(4,5,6) this]
  have step: "wait_loop e self task_id max_wait_time poll_interval (now w) w =
              wait_loop e self task_id max_wait_time poll_interval (now w) ?w1" .
  from assms(3) have "0 \<le> latency e (length (sent w))"
    and "0 \<le> oversleep e (Suc (length (sent w)))"
    by (simp_all add: causal_def)
  with assms(2) have "\<not> now ?w1 - now w < max_wait_time" by simp
  from wait_loop_timeout [OF this] step show ?thesis
    by (simp add: wait_for_completion_def)
qed

theorem wait_for_completion_max_wait_below_poll_interval_witness:
  "(0::real) < 3 \<and> (3::real) < 5 \<and> causal (scripted [pending, pending, pending]) \<and>
   wait_for_completion (scripted [pending, pending, pending]) bfl (PStr ''task-1'') 3 5 idle =
     Some (Inl (TimeoutError (PStr ''task-1'') 3),
           \<lparr>sent = [status_request bfl (PStr ''task-1'')], now = 5\<rparr>)"
proof -
  have c: "causal (scripted [pending, pending, pending])"
    by (simp add: causal_def scripted_def)
  have r: "status_result (respond (scripted [pending, pending, pending]) (length (sent idle))
             (status_request bfl (PStr ''task-1''))) = Inr (PDict [(''status'', PStr ''Pending'')])"
    by (simp add: stubs flux_simps)
  have run: "wait_for_completion (scripted [pending, pending, pending]) bfl (PStr ''task-1'') 3 5 idle =
     Some (Inl (TimeoutError (PStr ''task-1'') 3),
           \<lparr>sent = [status_request bfl (PStr ''task-1'')], now = 5\<rparr>)"
    by (simp add: stubs flux_simps wait_loop.simps)
  from wait_for_completion_max_wait_below_poll_interval
    [of 3 5 "scripted [pending, pending, pending]" idle bfl "PStr ''task-1''"
        "[(''status'', PStr ''Pending'')]", OF _ _ c r]
  have "\<exists>w'. wait_for_completion (scripted [pending, pending, pending]) bfl (PStr ''task-1'') 3 5 idle =
                 Some (Inl (TimeoutError (PStr ''task-1'') 3), w') \<and>
              sent w' = sent idle @ [status_request bfl (PStr ''task-1'')]"
    by (simp add: dict_get_def)
  with c run show ?thesis by simp
qed


text \<open>
  Claim C5. If the reply to request number \<open>k\<close> of the world reports \<open>Error\<close>, the
  run returns, it sends no request after that one, and when it did send it (it was
  not over before) its result is the failure that carries the detail the backend gave.
\<close>

theorem wait_for_completion_error_not_retried:
  assumes "length (sent w) \<le> k"
    and "status_result (respond e k (status_request self task_id)) = Inr (PDict d)"
    and "dict_get d ''status'' = PStr ''Error''"
  shows "\<exists>r w'. wait_for_completion e self task_id max_wait_time poll_interval w = Some (r, w') \<and>
           length (sent w') \<le> Suc k \<and>
           (length (sent w') = Suc k \<longrightarrow>
              r = Inl (GenerationFailed (dict_get_default d ''error'' (PStr ''Unknown error''))))"
proof -
  from assms(1) have "length (sent w) + (k - length (sent w)) = k" by simp
  from wait_loop_error_ends [OF assms(2,3) this] show ?thesis
    by (simp add: wait_for_completion_def)
qed

theorem wait_for_completion_error_not_retried_witness:
  "length (sent idle) \<le> 1 \<and>
   status_result (respond (scripted [pending, failed_unsafe, ready]) 1
       (status_request bfl (PStr ''task-1''))) =
     Inr (PDict [(''status'', PStr ''Error''), (''error'', PStr ''unsafe content'')]) \<and>
   wait_for_completion (scripted [pending, failed_unsafe, ready]) bfl (PStr ''task-1'') 300 5 idle =
     Some (Inl (GenerationFailed (PStr ''unsafe content'')),
           \<lparr>sent = replicate 2 (status_request bfl (PStr ''task-1'')), now = 5\<rparr>)"
proof -
  have k: "length (sent idle) \<le> 1" by (simp add: idle_def)
  have r: "status_result (respond (scripted [pending, failed_unsafe, ready]) 1
       (status_request bfl (PStr ''task-1''))) =
     Inr (PDict [(''status'', PStr ''Error''), (''error'', PStr ''unsafe content'')])"
    by (simp add: stubs flux_simps)
  have s: "dict_get [(''status'', PStr ''Error''), (''error'', PStr ''unsafe content'')] ''status'' =
             PStr ''Error''"
    by (simp add: dict_get_def)
  have run: "wait_for_completion (scripted [pending, failed_unsafe, ready]) bfl (PStr ''task-1'') 300 5 idle =
     Some (Inl (GenerationFailed (PStr ''unsafe content'')),
           \<lparr>sent = replicate 2 (status_request bfl (PStr ''task-1'')), now = 5\<rparr>)"
    by (simp add: stubs flux_simps wait_loop.simps numeral_2_eq_2)
  from wait_for_completion_error_not_retried [OF k r s, of 300 5] run k r
  show ?thesis by simp
qed

text \<open>
  Claim C3, as amended. Poll interval positive, no request or sleep of negative
  length. First: when the maximum wait exceeds minus two poll intervals, the run
  returns and the status queries it sent number at most the ceiling of maximum wait
  over poll interval, plus one. Second: when the first two statuses are neither
  \<open>Ready\<close> nor \<open>Error\<close>, the third is \<open>Ready\<close>, and the two sleeps and the first two
  queries together take less than the maximum wait, the run returns the third status
  after exactly three status queries, at least two poll intervals after it began.
\<close>

theorem wait_for_completion_ready_on_third_query:
  assumes "causal e" and "0 < poll_interval"
  shows "(- 2 * poll_interval < max_wait_time \<longrightarrow>
            (\<exists>r w' m. wait_for_completion e self task_id max_wait_time poll_interval w =
                         Some (r, w') \<and>
                       sent w' = sent w @ replicate m (status_request self task_id) \<and>
                       int m \<le> \<lceil>max_wait_time / poll_interval\<rceil> + 1)) \<and>
         (status_result (respond e (length (sent w)) (status_request self task_id)) =
              Inr (PDict d0) \<and>
          dict_get d0 ''status'' \<noteq> PStr ''Ready'' \<and> dict_get d0 ''status'' \<noteq> PStr ''Error'' \<and>
          status_result (respond e (Suc (length (sent w))) (status_request self task_id)) =
              Inr (PDict d1) \<and>
          dict_get d1 ''status'' \<noteq> PStr ''Ready'' \<and> dict_get d1 ''status'' \<noteq> PStr ''Error'' \<and>
          status_result (respond e (Suc (Suc (length (sent w)))) (status_request self task_id)) =
              Inr (PDict d2) \<and>
          dict_get d2 ''status'' = PStr ''Ready'' \<and>
          2 * poll_interval + latency e (length (sent w)) + oversleep e (Suc (length (sent w)))
            + latency e (Suc (length (sent w))) + oversleep e (Suc (Suc (length (sent w))))
            < max_wait_time \<longrightarrow>
            (\<exists>w'. wait_for_completion e self task_id max_wait_time poll_interval w =
                     Some (Inr d2, w') \<and>
                   sent w' = sent w @ replicate 3 (status_request self task_id) \<and>
                   2 * poll_interval \<le> now w' - now w))"
proof (intro conjI impI)
  assume mw: "- 2 * poll_interval < max_wait_time"
  have "nat \<lceil>(max_wait_time - (now w - now w)) / poll_interval\<rceil>
          \<le> nat \<lceil>max_wait_time / poll_interval\<rceil>"
    by simp
  from wait_loop_returns_within [OF assms this, of self task_id]
  obtain r w' m where run: "wait_loop e self task_id max_wait_time poll_interval (now w) w = Some (r, w')"
    and s: "sent w' = sent w @ replicate m (status_request self task_id)"
    and m: "m \<le> nat \<lceil>max_wait_time / poll_interval\<rceil>"
    by blast
  from mw assms(2) have "- 2 < max_wait_time / poll_interval"
    by (simp add: pos_less_divide_eq)
  then have "- 1 \<le> \<lceil>max_wait_time / poll_interval\<rceil>" by linarith
  with m have "int m \<le> \<lceil>max_wait_time / poll_interval\<rceil> + 1" by linarith
  with run s show "\<exists>r w' m. wait_for_completion e self task_id max_wait_time poll_interval w =
                         Some (r, w') \<and>
                       sent w' = sent w @ replicate m (status_request self task_id) \<and>
                       int m \<le> \<lceil>max_wait_time / poll_interval\<rceil> + 1"
    unfolding wait_for_completion_def by blast
next
  let ?n = "length (sent w)"
  let ?req = "status_request self task_id"
  assume h: "status_result (respond e ?n ?req) = Inr (PDict d0) \<and>
          dict_get d0 ''status'' \<noteq> PStr ''Ready'' \<and> dict_get d0 ''status'' \<noteq> PStr ''Error'' \<and>
          status_result (respond e (Suc ?n) ?req) = Inr (PDict d1) \<and>
          dict_get d1 ''status'' \<noteq> PStr ''Ready'' \<and> dict_get d1 ''status'' \<noteq> PStr ''Error'' \<and>
          status_result (respond e (Suc (Suc ?n)) ?req) = Inr (PDict d2) \<and>
          dict_get d2 ''status'' = PStr ''Ready'' \<and>
          2 * poll_interval + latency e ?n + oversleep e (Suc ?n)
            + latency e (Suc ?n) + oversleep e (Suc (Suc ?n)) < max_wait_time"
  from assms(1) have l0: "0 \<le> latency e ?n" and o1: "0 \<le> oversleep e (Suc ?n)"
    and l1: "0 \<le> latency e (Suc ?n)" and o2: "0 \<le> oversleep e (Suc (Suc ?n))"
    and l2: "0 \<le> latency e (Suc (Suc ?n))"
    by (simp_all add: causal_def)
  from assms(2) have p: "0 \<le> poll_interval" by simp
  let ?w1 = "w\<lparr>sent := sent w @ [?req],
               now := now w + latency e ?n + poll_interval + oversleep e (Suc ?n)\<rparr>"
  let ?w2 = "?w1\<lparr>sent := sent ?w1 @ [?req],
               now := now ?w1 + latency e (length (sent ?w1)) + poll_interval
                      + oversleep e (Suc (length (sent ?w1)))\<rparr>"
  from h l0 o1 l1 o2 assms(2) have t0: "now w - now w < max_wait_time" by simp
  from h l0 o1 l1 o2 assms(2) have t1: "now ?w1 - now w < max_wait_time" by simp
  from h have t2: "now ?w2 - now w < max_wait_time" by simp
  from h have r0: "status_result (respond e ?n ?req) = Inr (PDict d0)"
    and n0: "dict_get d0 ''status'' \<noteq> PStr ''Ready''" "dict_get d0 ''status'' \<noteq> PStr ''Error''"
    by simp_all
  from h have r1: "status_result (respond e (length (sent ?w1)) ?req) = Inr (PDict d1)"
    and n1: "dict_get d1 ''status'' \<noteq> PStr ''Ready''" "dict_get d1 ''status'' \<noteq> PStr ''Error''"
    by simp_all
  from h have r2: "status_result (respond e (length (sent ?w2)) ?req) = Inr (PDict d2)"
    and n2: "dict_get d2 ''status'' = PStr ''Ready''"
    by simp_all
  have "wait_loop e self task_id max_wait_time poll_interval (now w) w =
        wait_loop e self task_id max_wait_time poll_interval (now w) ?w1"
    by (rule wait_loop_pending [OF t0 r0 n0 p])
  also have "\<dots> = wait_loop e self task_id max_wait_time poll_interval (now w) ?w2"
    by (rule wait_loop_pending [OF t1 r1 n1 p])
  also have "\<dots> = Some (Inr d2, snd (get_task_status e self task_id ?w2))"
    by (rule wait_loop_ready [OF t2 r2 n2])
  finally have run: "wait_for_completion e self task_id max_wait_time poll_interval w =
                  Some (Inr d2, snd (get_task_status e self task_id ?w2))"
    by (simp add: wait_for_completion_def)
  have s: "sent (snd (get_task_status e self task_id ?w2)) = sent w @ replicate 3 ?req"
    by (simp add: sent_after_query numeral_3_eq_3)
  from l0 o1 l1 o2 l2
  have e: "2 * poll_interval \<le> now (snd (get_task_status e self task_id ?w2)) - now w"
    by (simp add: now_after_query)
  from run s e show "\<exists>w'. wait_for_completion e self task_id max_wait_time poll_interval w =
                     Some (Inr d2, w') \<and>
                   sent w' = sent w @ replicate 3 (status_request self task_id) \<and>
                   2 * poll_interval \<le> now w' - now w"
    by blast
qed


theorem wait_for_completion_ready_on_third_query_witness:
  "causal (scripted [pending, pending, ready]) \<and> (0::real) < 5 \<and>
   (\<exists>w'. wait_for_completion (scripted [pending, pending, ready]) bfl (PStr ''task-1'') 300 5 idle =
            Some (Inr [(''id'', PStr ''task-1''), (''status'', PStr ''Ready''),
                       (''result'', PDict [(''sample'', PStr ''https://delivery.example/sample.jpg'')])],
                  w') \<and>
          sent w' = sent idle @ replicate 3 (status_request bfl (PStr ''task-1'')) \<and>
          2 * 5 \<le> now w' - now idle) \<and>
   \<lceil>(300::real) / 5\<rceil> + 1 = 61"
proof -
  have c: "causal (scripted [pending, pending, ready])"
    by (simp add: causal_def scripted_def)
  have p: "(0::real) < 5" by simp
  have third: "\<exists>w'. wait_for_completion (scripted [pending, pending, ready]) bfl (PStr ''task-1'') 300 5 idle =
            Some (Inr [(''id'', PStr ''task-1''), (''status'', PStr ''Ready''),
                       (''result'', PDict [(''sample'', PStr ''https://delivery.example/sample.jpg'')])],
                  w') \<and>
          sent w' = sent idle @ replicate 3 (status_request bfl (PStr ''task-1'')) \<and>
          2 * 5 \<le> now w' - now idle"
    using wait_for_completion_ready_on_third_query
      [where e = "scripted [pending, pending, ready]" and poll_interval = 5
         and max_wait_time = 300 and self = bfl and task_id = "PStr ''task-1''" and w = idle
         and ?d0.0 = "[(''status'', PStr ''Pending'')]" and ?d1.0 = "[(''status'', PStr ''Pending'')]"
         and ?d2.0 = "[(''id'', PStr ''task-1''), (''status'', PStr ''Ready''),
                       (''result'', PDict [(''sample'', PStr ''https://delivery.example/sample.jpg'')])]",
       OF c p]
    by (simp add: stubs flux_simps)
  have "\<lceil>(300::real) / 5\<rceil> + 1 = 61" by simp
  with c p third show ?thesis by blast
qed

theorem wait_for_completion_ready_on_third_query_counterexample:
  "wait_for_completion (scripted [pending, pending, ready]) bfl (PStr ''task-1'') 1 5 idle =
     Some (Inl (TimeoutError (PStr ''task-1'') 1),
           \<lparr>sent = [status_request bfl (PStr ''task-1'')], now = 5\<rparr>) \<and>
   wait_for_completion (scripted [pending, pending, ready]) bfl (PStr ''task-1'') (- 10) 5 idle =
     Some (Inl (TimeoutError (PStr ''task-1'') (- 10)), idle) \<and>
   \<lceil>(- 10 :: real) / 5\<rceil> + 1 < int (length (sent idle))"
  by (simp add: stubs flux_simps wait_loop.simps)

section \<open>Properties of \<open>generate_and_wait\<close> and \<open>download_image\<close>\<close>

text \<open>
  Claim C7. A recognized model, a submission the backend answers without an error
  status and with a JSON object whose \<open>id\<close> is absent or empty: the run ends in the
  error that no task id was returned, and the submission is the only request sent.
\<close>

theorem generate_and_wait_no_task_id:
  assumes "map_of model_endpoints model = Some ep"
    and "build_payload prompt model kwargs = Inr payload"
    and "respond e (length (sent w)) (generation_request self ep payload) = Inr response"
    and "ok response"
    and "json_body response = Some (PDict result)"
    and "\<not> truthy (dict_get result ''id'')"
  shows "\<exists>w'. generate_and_wait e self prompt model kwargs w = Some (Inl NoTaskId, w') \<and>
              sent w' = sent w @ [generation_request self ep payload]"
proof -
  from assms(4) have "raise_for_status response = Inr ()"
    by (simp add: ok_def split: sum.splits)
  with assms(1,2,3,5)
  have "generate_image e self prompt model kwargs w =
          (Inr result, w\<lparr>sent := sent w @ [generation_request self ep payload],
                         now := now w + latency e (length (sent w))\<rparr>)"
    by (simp add: generate_image_def send_def response_json_def)
  with assms(6) show ?thesis
    by (simp add: generate_and_wait_def)
qed

theorem generate_and_wait_no_task_id_witness:
  "map_of model_endpoints ''flux-pro'' = Some ''flux-pro'' \<and>
   ok \<lparr>status_code = 200, content = [], json_body = Some (PDict [(''status'', PStr ''Pending'')])\<rparr> \<and>
   \<not> truthy (dict_get [(''status'', PStr ''Pending'')] ''id'') \<and>
   (\<exists>w'. generate_and_wait (scripted [pending, ready]) bfl ''a cat'' ''flux-pro'' [] idle =
            Some (Inl NoTaskId, w') \<and> length (sent w') = 1)"
proof -
  let ?payload = "[(''prompt'', PStr ''a cat''), (''width'', PInt 1024), (''height'', PInt 1024),
          (''prompt_upsampling'', PBool False), (''safety_tolerance'', PInt 2),
          (''output_format'', PStr ''jpeg'')]"
  let ?response = "\<lparr>status_code = 200, content = [],
                     json_body = Some (PDict [(''status'', PStr ''Pending'')])\<rparr>"
  have m: "map_of model_endpoints ''flux-pro'' = Some ''flux-pro''"
    by (simp add: model_endpoints_def)
  have b: "build_payload ''a cat'' ''flux-pro'' [] = Inr ?payload"
    by (simp add: build_payload_def model_endpoints_def model_fields_def add_webhook_def
        remove_none_def dict_get_def dict_get_default_def dict_set_def)
  have r: "respond (scripted [pending, ready]) (length (sent idle))
             (generation_request bfl ''flux-pro'' ?payload) = Inr ?response"
    by (simp add: stubs)
  have k: "ok ?response" by (simp add: ok_def raise_for_status_def)
  have j: "json_body ?response = Some (PDict [(''status'', PStr ''Pending'')])" by simp
  have t: "\<not> truthy (dict_get [(''status'', PStr ''Pending'')] ''id'')"
    by (simp add: dict_get_def)
  from generate_and_wait_no_task_id [OF m b r k j t]
  have "\<exists>w'. generate_and_wait (scripted [pending, ready]) bfl ''a cat'' ''flux-pro'' [] idle =
            Some (Inl NoTaskId, w') \<and> length (sent w') = 1"
    by (auto simp: idle_def)
  with m k t show ?thesis by blast
qed

text \<open>
  Claim C6, as amended. \<open>download_image\<close> sends one GET of the result reference with
  no headers of the client. A transport error is the result; a response with a status
  from 400 to 599 is the error of \<open>raise_for_status\<close>; on any other response the
  result is exactly the response body.
\<close>

theorem download_image_plain_get:
  "sent (snd (download_image e self image_url w)) = sent w @ [download_request image_url] \<and>
   headers (download_request image_url) = [] \<and>
   fst (download_image e self image_url w) =
     (case respond e (length (sent w)) (download_request image_url) of
        Inl err \<Rightarrow> Inl err
      | Inr response \<Rightarrow>
          if 400 \<le> status_code response \<and> status_code response < 600
          then Inl (HTTPError (status_code response) (content response))
          else Inr (content response))"
  by (simp add: download_image_def download_request_def send_def raise_for_status_def
      split: sum.splits)

theorem download_image_counterexample:
  "headers (last (sent (snd (download_image (scripted [not_modified]) bfl
       ''https://delivery.example/sample.jpg'' idle)))) = [] \<and>
   flux_headers bfl = [(''Authorization'', ''Bearer key''), (''Content-Type'', ''application/json'')] \<and>
   fst (download_image (scripted [not_modified]) bfl ''https://delivery.example/sample.jpg'' idle) =
     Inr ''cached bytes''"
  by (simp add: download_image_def download_request_def send_def raise_for_status_def
      stubs not_modified_def flux_headers_def)

section \<open>Properties of the video submission\<close>

lemma descriptors_no_crop:
  "descriptors (jobs_request self
      (data_no_crop self prompt image_filenames n_seconds height width n_variants)
      images image_filenames) = map inpaint_item image_filenames"
  by (simp add: descriptors_def jobs_request_def data_no_crop_def base_data_def)

lemma descriptors_with_crop:
  "descriptors (jobs_request self
      (data_with_crop self prompt image_filenames n_seconds height width n_variants)
      images image_filenames) = map inpaint_item_with_crop image_filenames"
  by (simp add: descriptors_def jobs_request_def data_with_crop_def base_data_def)

lemma crop_bounds_item: "crop_bounds (inpaint_item filename) = None"
  by (simp add: crop_bounds_def inpaint_item_def)

lemma crop_bounds_item_with_crop:
  "crop_bounds (inpaint_item_with_crop filename) =
     Some (PDict [(''left_fraction'', PFloat 0), (''top_fraction'', PFloat 0),
                  (''right_fraction'', PFloat 1), (''bottom_fraction'', PFloat 1)])"
  by (simp add: crop_bounds_def inpaint_item_with_crop_def full_frame_def)

lemma ok_iff: "ok r \<longleftrightarrow> \<not> (400 \<le> status_code r \<and> status_code r < 600)"
  by (simp add: ok_def raise_for_status_def)

text \<open>
  Claim C2. \<open>first\<close> and \<open>second\<close> are the two requests of the submission. No
  descriptor of the first has crop bounds, every descriptor of the second has the
  full-frame bounds, and both have one descriptor per file name. The first request
  is always sent. A transport error on it, or a response that is ok, ends the run with
  that one request sent: the error, or the decoded body of the response. A response that
  is not ok is followed by the second request and by nothing else, and the result is
  what the second attempt gave: its transport error, its decoded body, or the HTTP
  error of the second response.
\<close>

theorem create_video_generation_job_with_images_two_attempts:
  assumes "first = jobs_request self
             (data_no_crop self prompt image_filenames n_seconds height width n_variants)
             images image_filenames"
    and "second = jobs_request self
             (data_with_crop self prompt image_filenames n_seconds height width n_variants)
             images image_filenames"
    and "create_video_generation_job_with_images e self prompt images image_filenames
           n_seconds height width n_variants w = (r, w')"
  shows "(\<forall>item \<in> set (descriptors first). crop_bounds item = None) \<and>
         (\<forall>item \<in> set (descriptors second).
            crop_bounds item =
              Some (PDict [(''left_fraction'', PFloat 0), (''top_fraction'', PFloat 0),
                           (''right_fraction'', PFloat 1), (''bottom_fraction'', PFloat 1)])) \<and>
         length (descriptors first) = length image_filenames \<and>
         length (descriptors second) = length image_filenames \<and>
         (case respond e (length (sent w)) first of
            Inl err \<Rightarrow> sent w' = sent w @ [first] \<and> r = Inl err
          | Inr response \<Rightarrow>
              if ok response then sent w' = sent w @ [first] \<and> r = response_json response
              else sent w' = sent w @ [first, second] \<and>
                   (case respond e (Suc (length (sent w))) second of
                      Inl err \<Rightarrow> r = Inl err
                    | Inr response2 \<Rightarrow>
                        if ok response2 then r = response_json response2
                        else r = Inl (HTTPError (status_code response2) (content response2))))"
proof -
  have d1: "\<forall>item \<in> set (descriptors first). crop_bounds item = None"
    by (auto simp: assms(1) descriptors_no_crop crop_bounds_item)
  have d2: "\<forall>item \<in> set (descriptors second).
            crop_bounds item =
              Some (PDict [(''left_fraction'', PFloat 0), (''top_fraction'', PFloat 0),
                           (''right_fraction'', PFloat 1), (''bottom_fraction'', PFloat 1)])"
    by (auto simp: assms(2) descriptors_with_crop crop_bounds_item_with_crop)
  have l1: "length (descriptors first) = length image_filenames"
    by (simp add: assms(1) descriptors_no_crop)
  have l2: "length (descriptors second) = length image_filenames"
    by (simp add: assms(2) descriptors_with_crop)
  have run: "case respond e (length (sent w)) first of
            Inl err \<Rightarrow> sent w' = sent w @ [first] \<and> r = Inl err
          | Inr response \<Rightarrow>
              if ok response then sent w' = sent w @ [first] \<and> r = response_json response
              else sent w' = sent w @ [first, second] \<and>
                   (case respond e (Suc (length (sent w))) second of
                      Inl err \<Rightarrow> r = Inl err
                    | Inr response2 \<Rightarrow>
                        if ok response2 then r = response_json response2
                        else r = Inl (HTTPError (status_code response2) (content response2)))"
    using assms(3)
    unfolding create_video_generation_job_with_images_def assms(1)[symmetric] assms(2)[symmetric]
    by (auto simp: send_def Let_def raise_for_status_def ok_iff split: sum.splits if_splits)
  from d1 d2 l1 l2 run show ?thesis
    apply (intro conjI)
        apply assumption+
    done
qed


lemma sora_run:
  "create_video_generation_job_with_images (scripted [rejected, accepted ''job-2'']) azure
       ''waves'' [''bytes-a'', ''bytes-b''] [''a.jpg'', ''b.jpg''] 5 480 854 1 idle =
     (Inr (PDict [(''id'', PStr ''job-2''), (''status'', PStr ''queued'')]),
      \<lparr>sent =
         [jobs_request azure (data_no_crop azure ''waves'' [''a.jpg'', ''b.jpg''] 5 480 854 1)
            [''bytes-a'', ''bytes-b''] [''a.jpg'', ''b.jpg''],
          jobs_request azure (data_with_crop azure ''waves'' [''a.jpg'', ''b.jpg''] 5 480 854 1)
            [''bytes-a'', ''bytes-b''] [''a.jpg'', ''b.jpg'']],
       now = 0\<rparr>)"
  by (simp add: create_video_generation_job_with_images_def send_def scripted_def idle_def
      rejected_def accepted_def json_reply_def ok_def raise_for_status_def response_json_def)

theorem create_video_generation_job_with_images_two_attempts_witness:
  "fst (create_video_generation_job_with_images (scripted [rejected, accepted ''job-2'']) azure
       ''waves'' [''bytes-a'', ''bytes-b''] [''a.jpg'', ''b.jpg''] 5 480 854 1 idle) =
     Inr (PDict [(''id'', PStr ''job-2''), (''status'', PStr ''queued'')]) \<and>
   map (map crop_bounds \<circ> descriptors)
     (sent (snd (create_video_generation_job_with_images (scripted [rejected, accepted ''job-2''])
       azure ''waves'' [''bytes-a'', ''bytes-b''] [''a.jpg'', ''b.jpg''] 5 480 854 1 idle))) =
     [[None, None], [Some full_frame, Some full_frame]]"
proof -
  note two = create_video_generation_job_with_images_two_attempts [OF refl refl sora_run]
  from two have "length (descriptors (jobs_request azure
            (data_no_crop azure ''waves'' [''a.jpg'', ''b.jpg''] 5 480 854 1)
            [''bytes-a'', ''bytes-b''] [''a.jpg'', ''b.jpg''])) = length [''a.jpg'', ''b.jpg'']"
    by blast
  then show ?thesis
    by (simp add: sora_run descriptors_no_crop descriptors_with_crop crop_bounds_item
        crop_bounds_item_with_crop full_frame_def)
qed

section \<open>Properties of the pipeline endpoint\<close>






end
